theory Spec2Isabelle
  imports Complex_Main
begin

section \<open>Common ground\<close>

text \<open>
  The module \<^verbatim>\<open>lib/table.py\<close> is a layer of Python classes over the objects of
  \<^verbatim>\<open>_core\<close> (\<^verbatim>\<open>HarmTable_base\<close>, \<^verbatim>\<open>LinTable_base\<close>, \<^verbatim>\<open>SndTable_base\<close>,
  \<^verbatim>\<open>TableRec_base\<close>, \<^verbatim>\<open>InputFader\<close>, \<^verbatim>\<open>sndinfo\<close>). A Python method mutates
  its object and may then raise: every method of the model takes the object and returns
  the raised exception, if any, together with the object as the call leaves it.
  Samples are floating-point numbers in the program; the model computes with \<open>real\<close>.
\<close>

datatype error = ConfigurationError | ResourceError | ZeroDivisionError | IndexError

text \<open>
  The comprehension \<^verbatim>\<open>[obj.m(args) for obj in self._base_objs]\<close>: the objects are
  visited in order, each is mutated in place, and the first exception ends the walk,
  leaving the later objects untouched.
\<close>

fun for_each :: "('b \<Rightarrow> error option \<times> 'b) \<Rightarrow> 'b list \<Rightarrow> error option \<times> 'b list" where
  "for_each m [] = (None, [])"
| "for_each m (obj # objs) =
     (case m obj of
        (Some e, obj') \<Rightarrow> (Some e, obj' # objs)
      | (None, obj') \<Rightarrow> (case for_each m objs of (r, objs') \<Rightarrow> (r, obj' # objs')))"

text \<open>
  The comprehension \<^verbatim>\<open>[obj.m(args, i) for i, obj in enumerate(self._base_objs)]\<close>:
  as \<open>for_each\<close>, with the index of the object handed to the call.
\<close>

fun for_each_enum ::
  "(int \<Rightarrow> 'b \<Rightarrow> error option \<times> 'b) \<Rightarrow> int \<Rightarrow> 'b list \<Rightarrow> error option \<times> 'b list" where
  "for_each_enum m i [] = (None, [])"
| "for_each_enum m i (obj # objs) =
     (case m i obj of
        (Some e, obj') \<Rightarrow> (Some e, obj' # objs)
      | (None, obj') \<Rightarrow>
          (case for_each_enum m (i + 1) objs of (r, objs') \<Rightarrow> (r, obj' # objs')))"

text \<open>
  A comprehension that builds objects, \<^verbatim>\<open>[C(args) for i in range(n)]\<close>: the first
  constructor that raises ends it.
\<close>

fun collect :: "(error + 'b) list \<Rightarrow> error + 'b list" where
  "collect [] = Inr []"
| "collect (Inl e # rs) = Inl e"
| "collect (Inr obj # rs) = (case collect rs of Inl e \<Rightarrow> Inl e | Inr objs \<Rightarrow> Inr (obj # objs))"

definition py_range :: "int \<Rightarrow> int list" where
  "py_range n = map int [0..<nat n]"

section \<open>HarmTable\<close>

text \<open>
  Modelled from the spec: \<^verbatim>\<open>HarmTable_base\<close> is not part of \<^verbatim>\<open>table.py\<close>. The spec's
  algorithm: for the sample index \<open>i\<close> in \<open>[0, size)\<close>, the value is the sum over
  \<open>k = 0 .. len(weights) - 1\<close> of \<open>weights[k] * sin(2 pi (k + 1) i / size)\<close>; after the
  summation over the whole buffer every sample is divided by the maximum of the absolute
  values over the buffer, and a maximum of 0 leaves the buffer as it is. The division is
  written as a partial operation, so that a division by zero would show as an error.
  A size of 0 or less is a ConfigurationError at construction and in \<^verbatim>\<open>setSize\<close>;
  weights are real numbers here, hence finite. \<^verbatim>\<open>setSize(n)\<close> runs the algorithm again
  at the new length.
\<close>

definition harm_value :: "real list \<Rightarrow> int \<Rightarrow> int \<Rightarrow> real" where
  "harm_value weights size' i =
     (\<Sum>k\<leftarrow>[0..<length weights].
        weights ! k * sin (2 * pi * real (k + 1) * real_of_int i / real_of_int size'))"

text \<open>Modelled from the spec: the summed samples, for the indices \<open>0 .. size - 1\<close>, before normalization.\<close>

definition harm_raw :: "real list \<Rightarrow> int \<Rightarrow> real list" where
  "harm_raw weights size' = map (harm_value weights size') (py_range size')"

text \<open>Modelled from the spec: the maximum of the absolute values over the buffer, 0 for an empty buffer.\<close>

fun peak :: "real list \<Rightarrow> real" where
  "peak [] = 0"
| "peak (v # vs) = max \<bar>v\<bar> (peak vs)"

text \<open>Modelled from the spec: the division of a sample by the peak, an error when the divisor is 0.\<close>

definition fdiv :: "real \<Rightarrow> real \<Rightarrow> error + real" where
  "fdiv a b = (if b = 0 then Inl ZeroDivisionError else Inr (a / b))"

text \<open>Modelled from the spec: peak normalization; a peak of 0 leaves the buffer as it is.\<close>

definition normalize :: "real list \<Rightarrow> error + real list" where
  "normalize buf =
     (let m = peak buf
      in if m = 0 then Inr buf else collect (map (\<lambda>v. fdiv v m) buf))"

text \<open>Modelled from the spec: the buffer of a \<^verbatim>\<open>HarmTable_base\<close>, summation then normalization.\<close>

definition HarmTable_generate :: "real list \<Rightarrow> int \<Rightarrow> error + real list" where
  "HarmTable_generate weights size' = normalize (harm_raw weights size')"

text \<open>Modelled from the spec: the state of a \<^verbatim>\<open>HarmTable_base\<close>, its weights, size and buffer.\<close>

record HarmTable_base =
  hb_amplist :: "real list"
  hb_size :: int
  hb_data :: "real list"

text \<open>Modelled from the spec: construction; a size of 0 or less is a ConfigurationError.\<close>

definition HarmTable_base_new :: "real list \<Rightarrow> int \<Rightarrow> error + HarmTable_base" where
  "HarmTable_base_new weights size' =
     (if size' \<le> 0 then Inl ConfigurationError
      else case HarmTable_generate weights size' of
             Inl e \<Rightarrow> Inl e
           | Inr d \<Rightarrow> Inr \<lparr>hb_amplist = weights, hb_size = size', hb_data = d\<rparr>)"

text \<open>Modelled from the spec: \<^verbatim>\<open>setSize(n)\<close> validates \<open>n\<close>, then runs the algorithm at the new length.\<close>

definition HarmTable_base_setSize :: "int \<Rightarrow> HarmTable_base \<Rightarrow> error option \<times> HarmTable_base" where
  "HarmTable_base_setSize size' obj =
     (if size' \<le> 0 then (Some ConfigurationError, obj)
      else case HarmTable_generate (hb_amplist obj) size' of
             Inl e \<Rightarrow> (Some e, obj)
           | Inr d \<Rightarrow> (None, obj\<lparr>hb_size := size', hb_data := d\<rparr>))"

text \<open>Modelled from the spec: \<^verbatim>\<open>replace(weights)\<close> regenerates the buffer at the current size.\<close>

definition HarmTable_base_replace ::
  "real list \<Rightarrow> HarmTable_base \<Rightarrow> error option \<times> HarmTable_base" where
  "HarmTable_base_replace weights obj =
     (case HarmTable_generate weights (hb_size obj) of
        Inl e \<Rightarrow> (Some e, obj)
      | Inr d \<Rightarrow> (None, obj\<lparr>hb_amplist := weights, hb_data := d\<rparr>))"

text \<open>
  The class \<^verbatim>\<open>HarmTable\<close> of \<^verbatim>\<open>table.py\<close>, with the attributes \<^verbatim>\<open>_list\<close>,
  \<^verbatim>\<open>_size\<close> and \<^verbatim>\<open>_base_objs\<close>. \<^verbatim>\<open>__init__(self, list=[1.], size=8192)\<close> builds
  one base object; \<^verbatim>\<open>setSize\<close> and \<^verbatim>\<open>replace\<close> assign the attribute first and then
  call every base object. The constructor and the methods of the base object are
  parameters.
\<close>

record 'b HarmTable =
  ht_list :: "real list"
  ht_size :: int
  ht_base_objs :: "'b list"

definition HarmTable_init ::
  "(real list \<Rightarrow> int \<Rightarrow> error + 'b) \<Rightarrow> real list option \<Rightarrow> int option \<Rightarrow> error + 'b HarmTable" where
  "HarmTable_init HarmTable_base' list' size' =
     (let l = (case list' of None \<Rightarrow> [1] | Some l \<Rightarrow> l);
          n = (case size' of None \<Rightarrow> 8192 | Some n \<Rightarrow> n)
      in case collect [HarmTable_base' l n] of
           Inl e \<Rightarrow> Inl e
         | Inr objs \<Rightarrow> Inr \<lparr>ht_list = l, ht_size = n, ht_base_objs = objs\<rparr>)"

definition HarmTable_setSize ::
  "(int \<Rightarrow> 'b \<Rightarrow> error option \<times> 'b) \<Rightarrow> int \<Rightarrow> 'b HarmTable \<Rightarrow> error option \<times> 'b HarmTable" where
  "HarmTable_setSize base_setSize size' self =
     (let self = self\<lparr>ht_size := size'\<rparr>
      in case for_each (base_setSize size') (ht_base_objs self) of
           (e, objs) \<Rightarrow> (e, self\<lparr>ht_base_objs := objs\<rparr>))"

definition HarmTable_replace ::
  "(real list \<Rightarrow> 'b \<Rightarrow> error option \<times> 'b) \<Rightarrow> real list \<Rightarrow> 'b HarmTable \<Rightarrow>
   error option \<times> 'b HarmTable" where
  "HarmTable_replace base_replace list' self =
     (let self = self\<lparr>ht_list := list'\<rparr>
      in case for_each (base_replace list') (ht_base_objs self) of
           (e, objs) \<Rightarrow> (e, self\<lparr>ht_base_objs := objs\<rparr>))"

section \<open>HannTable\<close>

text \<open>
  Modelled from the spec: \<^verbatim>\<open>HannTable_base\<close> is not part of \<^verbatim>\<open>table.py\<close>. For a size
  of at least 2 the value at \<open>i\<close> is \<open>0.5 - 0.5 cos(2 pi i / (size - 1))\<close>; for the size
  1 the buffer is the single value 1; a size of 0 or less is a ConfigurationError.
\<close>

record HannTable_base =
  nb_size :: int
  nb_data :: "real list"

text \<open>Modelled from the spec: the Hann window of a given size.\<close>

definition HannTable_generate :: "int \<Rightarrow> real list" where
  "HannTable_generate size' =
     (if size' = 1 then [1]
      else map (\<lambda>i. 1 / 2 - 1 / 2 * cos (2 * pi * real_of_int i / real_of_int (size' - 1)))
             (py_range size'))"

text \<open>Modelled from the spec: construction; a size of 0 or less is a ConfigurationError.\<close>

definition HannTable_base_new :: "int \<Rightarrow> error + HannTable_base" where
  "HannTable_base_new size' =
     (if size' \<le> 0 then Inl ConfigurationError
      else Inr \<lparr>nb_size = size', nb_data = HannTable_generate size'\<rparr>)"

text \<open>Modelled from the spec: \<^verbatim>\<open>setSize(n)\<close> validates \<open>n\<close>, then regenerates from scratch.\<close>

definition HannTable_base_setSize :: "int \<Rightarrow> HannTable_base \<Rightarrow> error option \<times> HannTable_base" where
  "HannTable_base_setSize size' obj =
     (if size' \<le> 0 then (Some ConfigurationError, obj)
      else (None, obj\<lparr>nb_size := size', nb_data := HannTable_generate size'\<rparr>))"

text \<open>The class \<^verbatim>\<open>HannTable\<close> of \<^verbatim>\<open>table.py\<close>: \<^verbatim>\<open>_size\<close> and \<^verbatim>\<open>_base_objs\<close>.\<close>

record 'b HannTable =
  nt_size :: int
  nt_base_objs :: "'b list"

definition HannTable_init :: "(int \<Rightarrow> error + 'b) \<Rightarrow> int option \<Rightarrow> error + 'b HannTable" where
  "HannTable_init HannTable_base' size' =
     (let n = (case size' of None \<Rightarrow> 8192 | Some n \<Rightarrow> n)
      in case collect [HannTable_base' n] of
           Inl e \<Rightarrow> Inl e
         | Inr objs \<Rightarrow> Inr \<lparr>nt_size = n, nt_base_objs = objs\<rparr>)"

definition HannTable_setSize ::
  "(int \<Rightarrow> 'b \<Rightarrow> error option \<times> 'b) \<Rightarrow> int \<Rightarrow> 'b HannTable \<Rightarrow> error option \<times> 'b HannTable" where
  "HannTable_setSize base_setSize size' self =
     (let self = self\<lparr>nt_size := size'\<rparr>
      in case for_each (base_setSize size') (nt_base_objs self) of
           (e, objs) \<Rightarrow> (e, self\<lparr>nt_base_objs := objs\<rparr>))"

section \<open>LinTable\<close>

text \<open>
  Modelled from the spec: \<^verbatim>\<open>LinTable_base\<close> is not part of \<^verbatim>\<open>table.py\<close>. The points
  are pairs of an integer location and a value; they are valid for a size when the
  locations are strictly increasing and within \<open>[0, size - 1]\<close>, and invalid points or
  a size of 0 or less are a ConfigurationError at construction, \<^verbatim>\<open>replace\<close> and
  \<^verbatim>\<open>setSize\<close>. Rendering: each pair of consecutive points fills the buffer from the
  first location to the second by linear interpolation; before the first location the
  buffer holds the first value; after the last location it holds 0. The three fills are
  made in this order, so a later one decides where two of them meet. \<^verbatim>\<open>setSize(n)\<close>
  renders the stored points again at the new size, the locations being sample indices;
  \<^verbatim>\<open>getPoints()\<close> returns the stored points.
\<close>

type_synonym point = "int \<times> real"

text \<open>Modelled from the spec: the locations are strictly increasing.\<close>

fun increasing :: "point list \<Rightarrow> bool" where
  "increasing (p # q # ps) = (fst p < fst q \<and> increasing (q # ps))"
| "increasing ps = True"

text \<open>Modelled from the spec: strictly increasing locations within \<open>[0, size - 1]\<close>.\<close>

definition valid_points :: "point list \<Rightarrow> int \<Rightarrow> bool" where
  "valid_points points size' =
     (increasing points \<and> list_all (\<lambda>p. 0 \<le> fst p \<and> fst p \<le> size' - 1) points)"

text \<open>Modelled from the spec: the value at \<open>i\<close> on the first segment that ends at or after \<open>i\<close>,
  \<open>val0 + (val1 - val0) (i - loc0) / (loc1 - loc0)\<close>.\<close>

fun interpolate :: "point list \<Rightarrow> int \<Rightarrow> real" where
  "interpolate ((loc0, val0) # (loc1, val1) # ps) i =
     (if i \<le> loc1
      then val0 + (val1 - val0) * real_of_int (i - loc0) / real_of_int (loc1 - loc0)
      else interpolate ((loc1, val1) # ps) i)"
| "interpolate [(loc, val)] i = val"
| "interpolate [] i = 0"

text \<open>Modelled from the spec: the sample at the index \<open>i\<close>: 0 after the last location, the first value
  before the first location, the interpolation between.\<close>

definition lin_value :: "point list \<Rightarrow> int \<Rightarrow> real" where
  "lin_value points i =
     (case points of
        [] \<Rightarrow> 0
      | (loc0, val0) # _ \<Rightarrow>
          if fst (last points) < i then 0
          else if i < loc0 then val0
          else interpolate points i)"

text \<open>Modelled from the spec: the buffer of a \<^verbatim>\<open>LinTable_base\<close> of a given size.\<close>

definition LinTable_generate :: "point list \<Rightarrow> int \<Rightarrow> real list" where
  "LinTable_generate points size' = map (lin_value points) (py_range size')"

text \<open>Modelled from the spec: the state of a \<^verbatim>\<open>LinTable_base\<close>, its points, size and buffer.\<close>

record LinTable_base =
  lb_pointslist :: "point list"
  lb_size :: int
  lb_data :: "real list"

text \<open>Modelled from the spec: construction, with the validation of the size and of the points.\<close>

definition LinTable_base_new :: "point list \<Rightarrow> int \<Rightarrow> error + LinTable_base" where
  "LinTable_base_new points size' =
     (if size' \<le> 0 \<or> \<not> valid_points points size' then Inl ConfigurationError
      else Inr \<lparr>lb_pointslist = points, lb_size = size',
                lb_data = LinTable_generate points size'\<rparr>)"

text \<open>Modelled from the spec: \<^verbatim>\<open>setSize(n)\<close> validates, then renders the stored points at the new size.
  The spec takes the locations as they are stored; the docstring of \<^verbatim>\<open>LinTable.setSize\<close> in
  \<^verbatim>\<open>table.py\<close> speaks of rescaling the envelope, which the spec does not describe.\<close>

definition LinTable_base_setSize :: "int \<Rightarrow> LinTable_base \<Rightarrow> error option \<times> LinTable_base" where
  "LinTable_base_setSize size' obj =
     (if size' \<le> 0 \<or> \<not> valid_points (lb_pointslist obj) size'
      then (Some ConfigurationError, obj)
      else (None, obj\<lparr>lb_size := size',
                       lb_data := LinTable_generate (lb_pointslist obj) size'\<rparr>))"

text \<open>Modelled from the spec: \<^verbatim>\<open>replace(points)\<close> validates the points and renders them.\<close>

definition LinTable_base_replace ::
  "point list \<Rightarrow> LinTable_base \<Rightarrow> error option \<times> LinTable_base" where
  "LinTable_base_replace points obj =
     (if \<not> valid_points points (lb_size obj) then (Some ConfigurationError, obj)
      else (None, obj\<lparr>lb_pointslist := points,
                       lb_data := LinTable_generate points (lb_size obj)\<rparr>))"

text \<open>Modelled from the spec: \<^verbatim>\<open>getPoints()\<close> returns the stored points.\<close>

definition LinTable_base_getPoints :: "LinTable_base \<Rightarrow> error + point list" where
  "LinTable_base_getPoints obj = Inr (lb_pointslist obj)"

text \<open>
  The class \<^verbatim>\<open>LinTable\<close> of \<^verbatim>\<open>table.py\<close>. \<^verbatim>\<open>__init__\<close> assigns \<^verbatim>\<open>_size\<close> and
  \<^verbatim>\<open>_base_objs\<close> only; \<^verbatim>\<open>_list\<close> exists once \<^verbatim>\<open>replace\<close> has been called.
  \<^verbatim>\<open>getPoints\<close> asks the first base object.
\<close>

record 'b LinTable =
  lt_size :: int
  lt_list :: "point list option"
  lt_base_objs :: "'b list"

definition LinTable_init ::
  "(point list \<Rightarrow> int \<Rightarrow> error + 'b) \<Rightarrow> point list option \<Rightarrow> int option \<Rightarrow>
   error + 'b LinTable" where
  "LinTable_init LinTable_base' list' size' =
     (let l = (case list' of None \<Rightarrow> [(0, 0), (8191, 1)] | Some l \<Rightarrow> l);
          n = (case size' of None \<Rightarrow> 8192 | Some n \<Rightarrow> n)
      in case collect [LinTable_base' l n] of
           Inl e \<Rightarrow> Inl e
         | Inr objs \<Rightarrow> Inr \<lparr>lt_size = n, lt_list = None, lt_base_objs = objs\<rparr>)"

definition LinTable_setSize ::
  "(int \<Rightarrow> 'b \<Rightarrow> error option \<times> 'b) \<Rightarrow> int \<Rightarrow> 'b LinTable \<Rightarrow> error option \<times> 'b LinTable" where
  "LinTable_setSize base_setSize size' self =
     (let self = self\<lparr>lt_size := size'\<rparr>
      in case for_each (base_setSize size') (lt_base_objs self) of
           (e, objs) \<Rightarrow> (e, self\<lparr>lt_base_objs := objs\<rparr>))"

definition LinTable_replace ::
  "(point list \<Rightarrow> 'b \<Rightarrow> error option \<times> 'b) \<Rightarrow> point list \<Rightarrow> 'b LinTable \<Rightarrow>
   error option \<times> 'b LinTable" where
  "LinTable_replace base_replace list' self =
     (let self = self\<lparr>lt_list := Some list'\<rparr>
      in case for_each (base_replace list') (lt_base_objs self) of
           (e, objs) \<Rightarrow> (e, self\<lparr>lt_base_objs := objs\<rparr>))"

definition LinTable_getPoints ::
  "('b \<Rightarrow> error + point list) \<Rightarrow> 'b LinTable \<Rightarrow> error + point list" where
  "LinTable_getPoints base_getPoints self =
     (case lt_base_objs self of [] \<Rightarrow> Inl IndexError | obj # _ \<Rightarrow> base_getPoints obj)"

section \<open>SndTable\<close>

text \<open>
  Modelled from the spec: the decoding of sound files is not part of \<^verbatim>\<open>table.py\<close>.
  The spec's sound file decode contract: given a path, the decoder returns the frame
  count, the sample rate and the channel count, and the sample frames of each channel;
  a missing or undecodable file is an error (ResourceError). The files on durable storage
  are a parameter \<open>fs\<close>; \<^verbatim>\<open>sndinfo(path)\<close> returns the triple.
\<close>

record sndfile =
  sf_frames :: int
  sf_sr :: real
  sf_chnls :: int
  sf_chan :: "int \<Rightarrow> real list"

text \<open>Modelled from the spec: \<^verbatim>\<open>sndinfo(path)\<close>, the frame count, sample rate and channel count of the file.\<close>

definition sndinfo :: "(string \<Rightarrow> sndfile option) \<Rightarrow> string \<Rightarrow> error + int \<times> real \<times> int" where
  "sndinfo fs path =
     (case fs path of
        None \<Rightarrow> Inl ResourceError
      | Some f \<Rightarrow> Inr (sf_frames f, sf_sr f, sf_chnls f))"

text \<open>
  Modelled from the spec: \<^verbatim>\<open>SndTable_base\<close> is not part of \<^verbatim>\<open>table.py\<close>. A sub-table
  is filled from one decoded channel of the file and has the file's frame count as its
  size; \<^verbatim>\<open>setSound(path, chnl)\<close> fills it again from channel \<open>chnl\<close> of the new file;
  \<^verbatim>\<open>getRate()\<close> returns the source sample rate divided by the size, a quotient the spec
  leaves without a value for the size 0 (it requires sizes of at least 1); \<^verbatim>\<open>getSize()\<close>
  returns the current length.
\<close>

record SndTable_base =
  sb_path :: string
  sb_chnl :: int
  sb_size :: int
  sb_sr :: real
  sb_data :: "real list"

text \<open>Modelled from the spec: a sub-table filled from the channel \<open>chnl\<close> of a decoded file.\<close>

definition SndTable_base_load :: "string \<Rightarrow> int \<Rightarrow> sndfile \<Rightarrow> SndTable_base" where
  "SndTable_base_load path chnl f =
     \<lparr>sb_path = path, sb_chnl = chnl, sb_size = sf_frames f, sb_sr = sf_sr f,
      sb_data = sf_chan f chnl\<rparr>"

text \<open>Modelled from the spec: construction; a missing or undecodable file is a ResourceError.\<close>

definition SndTable_base_new ::
  "(string \<Rightarrow> sndfile option) \<Rightarrow> string \<Rightarrow> int \<Rightarrow> error + SndTable_base" where
  "SndTable_base_new fs path chnl =
     (case fs path of
        None \<Rightarrow> Inl ResourceError
      | Some f \<Rightarrow> Inr (SndTable_base_load path chnl f))"

text \<open>Modelled from the spec: \<^verbatim>\<open>setSound(path, chnl)\<close> fills the sub-table again from the new file.\<close>

definition SndTable_base_setSound ::
  "(string \<Rightarrow> sndfile option) \<Rightarrow> string \<Rightarrow> int \<Rightarrow> SndTable_base \<Rightarrow>
   error option \<times> SndTable_base" where
  "SndTable_base_setSound fs path chnl obj =
     (case fs path of
        None \<Rightarrow> (Some ResourceError, obj)
      | Some f \<Rightarrow> (None, SndTable_base_load path chnl f))"

text \<open>Modelled from the spec: \<^verbatim>\<open>getRate()\<close>, the source sample rate divided by the size.\<close>

definition SndTable_base_getRate :: "SndTable_base \<Rightarrow> error + real" where
  "SndTable_base_getRate obj =
     (if sb_size obj = 0 then Inl ZeroDivisionError
      else Inr (sb_sr obj / real_of_int (sb_size obj)))"

text \<open>Modelled from the spec: \<^verbatim>\<open>getSize()\<close>, the current length.\<close>

definition SndTable_base_getSize :: "SndTable_base \<Rightarrow> error + int" where
  "SndTable_base_getSize obj = Inr (sb_size obj)"

text \<open>
  The attributes of a \<^verbatim>\<open>SndTable\<close>: \<^verbatim>\<open>_size\<close>, \<^verbatim>\<open>_snd_sr\<close>, \<^verbatim>\<open>_snd_chnls\<close> and
  \<^verbatim>\<open>_base_objs\<close>. The functions of \<^verbatim>\<open>_core\<close> that the methods call are parameters.
\<close>

record 'b SndTable =
  st_size :: int
  st_snd_sr :: real
  st_snd_chnls :: int
  st_base_objs :: "'b list"

text \<open>\<^verbatim>\<open>__init__(self, path, chnl=None)\<close>.\<close>

definition SndTable_init ::
  "(string \<Rightarrow> error + int \<times> real \<times> int) \<Rightarrow> (string \<Rightarrow> int \<Rightarrow> error + 'b) \<Rightarrow>
   string \<Rightarrow> int option \<Rightarrow> error + 'b SndTable" where
  "SndTable_init sndinfo' SndTable_base' path chnl =
     (case sndinfo' path of
        Inl e \<Rightarrow> Inl e
      | Inr (size', snd_sr, snd_chnls) \<Rightarrow>
          (case (case chnl of
                   None \<Rightarrow> collect (map (\<lambda>i. SndTable_base' path i) (py_range snd_chnls))
                 | Some c \<Rightarrow> collect [SndTable_base' path c]) of
             Inl e \<Rightarrow> Inl e
           | Inr objs \<Rightarrow>
               Inr \<lparr>st_size = size', st_snd_sr = snd_sr, st_snd_chnls = snd_chnls,
                    st_base_objs = objs\<rparr>))"

text \<open>
  \<^verbatim>\<open>setSound(self, path)\<close>: the triple of \<^verbatim>\<open>sndinfo\<close> goes to local variables, then
  every base object is sent \<^verbatim>\<open>setSound(path, i % _snd_chnls)\<close>. The remainder raises
  ZeroDivisionError for a channel count of 0, before the base object is called.
\<close>

definition SndTable_setSound ::
  "(string \<Rightarrow> error + int \<times> real \<times> int) \<Rightarrow>
   (string \<Rightarrow> int \<Rightarrow> 'b \<Rightarrow> error option \<times> 'b) \<Rightarrow>
   string \<Rightarrow> 'b SndTable \<Rightarrow> error option \<times> 'b SndTable" where
  "SndTable_setSound sndinfo' base_setSound path self =
     (case sndinfo' path of
        Inl e \<Rightarrow> (Some e, self)
      | Inr (size', snd_sr, snd_chnls) \<Rightarrow>
          (case for_each_enum
                  (\<lambda>i obj. if snd_chnls = 0 then (Some ZeroDivisionError, obj)
                           else base_setSound path (i mod snd_chnls) obj)
                  0 (st_base_objs self) of
             (e, objs) \<Rightarrow> (e, self\<lparr>st_base_objs := objs\<rparr>)))"

text \<open>
  \<^verbatim>\<open>getRate(self)\<close>: \<^verbatim>\<open>self._base_objs[0].getRate()\<close>; the index raises IndexError on
  an empty list.
\<close>

definition SndTable_getRate :: "('b \<Rightarrow> error + real) \<Rightarrow> 'b SndTable \<Rightarrow> error + real" where
  "SndTable_getRate base_getRate self =
     (case st_base_objs self of [] \<Rightarrow> Inl IndexError | obj # _ \<Rightarrow> base_getRate obj)"

text \<open>
  Modelled from the spec: \<^verbatim>\<open>getSize\<close> is inherited from \<^verbatim>\<open>PyoTableObject\<close>, which is
  not part of \<^verbatim>\<open>table.py\<close>. It returns the current length of the table, read from the
  first sub-table, as \<^verbatim>\<open>NewTable.getSize\<close> does.
\<close>

definition SndTable_getSize :: "('b \<Rightarrow> error + int) \<Rightarrow> 'b SndTable \<Rightarrow> error + int" where
  "SndTable_getSize base_getSize self =
     (case st_base_objs self of [] \<Rightarrow> Inl IndexError | obj # _ \<Rightarrow> base_getSize obj)"

section \<open>TableRec\<close>

type_synonym addr = nat

text \<open>
  Modelled from the spec: \<^verbatim>\<open>TableRec_base\<close> is not part of \<^verbatim>\<open>table.py\<close>. The spec
  gives the recorder a state machine with the states Idle, FadingIn, Recording, FadingOut
  and Done, a write cursor, a fade time and a reference to its target table; the object
  reads its input from one stream of the input fader.
\<close>

datatype rec_state = Idle | FadingIn | Recording | FadingOut | Done

record TableRec_base =
  rb_stream :: nat
  rb_table :: addr
  rb_fadetime :: real
  rb_state :: rec_state
  rb_cursor :: nat

text \<open>Modelled from the spec: a new recorder is Idle, its cursor at 0.\<close>

definition TableRec_base_new :: "nat \<Rightarrow> addr \<Rightarrow> real \<Rightarrow> TableRec_base" where
  "TableRec_base_new stream table fadetime =
     \<lparr>rb_stream = stream, rb_table = table, rb_fadetime = fadetime,
      rb_state = Idle, rb_cursor = 0\<rparr>"

text \<open>
  The attributes of a \<^verbatim>\<open>TableRec\<close>: \<^verbatim>\<open>_input\<close>, \<^verbatim>\<open>_table\<close>, \<^verbatim>\<open>_in_fader\<close> and
  \<^verbatim>\<open>_base_objs\<close>. The table is referenced, not owned: \<open>tr_table\<close> holds the
  addresses of its sub-tables, whose buffers live in the store \<open>tables\<close> of the world.
  The input fader (type \<open>'f\<close>) and the signals (type \<open>'sig\<close>) belong to \<^verbatim>\<open>_core\<close>
  and stay abstract.
\<close>

record ('sig, 'f) TableRec =
  tr_input :: 'sig
  tr_table :: "addr list"
  tr_in_fader :: 'f
  tr_base_objs :: "TableRec_base list"

record ('sig, 'f) rec_world =
  tables :: "addr \<Rightarrow> real list"
  recorder :: "('sig, 'f) TableRec"

text \<open>
  \<^verbatim>\<open>__init__(self, input, table, fadetime=0)\<close>. The constructor of the input fader is a
  parameter; \<open>fadetime\<close> is a number, which \<^verbatim>\<open>convertArgsToLists\<close> turns into a list of
  one element, so that \<^verbatim>\<open>wrap(fadetime, i)\<close> is that number; \<^verbatim>\<open>wrap(table, i)\<close> is sub-table
  \<open>i\<close> for \<open>i\<close> below \<^verbatim>\<open>len(table)\<close>.
\<close>

definition TableRec_init ::
  "('sig \<Rightarrow> 'f) \<Rightarrow> 'sig \<Rightarrow> addr list \<Rightarrow> real option \<Rightarrow> ('sig, 'f) TableRec" where
  "TableRec_init InputFader input table fadetime =
     (let ft = (case fadetime of None \<Rightarrow> 0 | Some t \<Rightarrow> t)
      in \<lparr>tr_input = input, tr_table = table, tr_in_fader = InputFader input,
          tr_base_objs = map (\<lambda>i. TableRec_base_new i (table ! i) ft) [0..<length table]\<rparr>)"

text \<open>\<^verbatim>\<open>out\<close>, \<^verbatim>\<open>setMul\<close> and \<^verbatim>\<open>setAdd\<close>: the body is \<^verbatim>\<open>pass\<close>, the value is \<^verbatim>\<open>None\<close>.\<close>

definition TableRec_out ::
  "int \<Rightarrow> ('sig, 'f) rec_world \<Rightarrow> 'sig option \<times> ('sig, 'f) rec_world" where
  "TableRec_out chnl w = (None, w)"

definition TableRec_setMul ::
  "'x \<Rightarrow> ('sig, 'f) rec_world \<Rightarrow> 'sig option \<times> ('sig, 'f) rec_world" where
  "TableRec_setMul x w = (None, w)"

definition TableRec_setAdd ::
  "'x \<Rightarrow> ('sig, 'f) rec_world \<Rightarrow> 'sig option \<times> ('sig, 'f) rec_world" where
  "TableRec_setAdd x w = (None, w)"

text \<open>
  \<^verbatim>\<open>setInput(self, x, fadetime=0.05)\<close>: \<^verbatim>\<open>self._input = x\<close>, then
  \<^verbatim>\<open>self._in_fader.setInput(x, fadetime)\<close>. The fader's method is a parameter acting on
  the fader object; an exception it raises leaves \<^verbatim>\<open>_input\<close> already assigned.
\<close>

definition TableRec_setInput ::
  "('sig \<Rightarrow> real \<Rightarrow> 'f \<Rightarrow> error option \<times> 'f) \<Rightarrow> 'sig \<Rightarrow> real option \<Rightarrow>
   ('sig, 'f) rec_world \<Rightarrow> error option \<times> ('sig, 'f) rec_world" where
  "TableRec_setInput fader_setInput x fadetime w =
     (let ft = (case fadetime of None \<Rightarrow> 5 / 100 | Some t \<Rightarrow> t);
          self = (recorder w)\<lparr>tr_input := x\<rparr>;
          (e, fader) = fader_setInput x ft (tr_in_fader self)
      in (e, w\<lparr>recorder := self\<lparr>tr_in_fader := fader\<rparr>\<rparr>))"

text \<open>The setter of the property \<^verbatim>\<open>input\<close>: \<^verbatim>\<open>self.setInput(x)\<close>.\<close>

definition TableRec_input_setter ::
  "('sig \<Rightarrow> real \<Rightarrow> 'f \<Rightarrow> error option \<times> 'f) \<Rightarrow> 'sig \<Rightarrow>
   ('sig, 'f) rec_world \<Rightarrow> error option \<times> ('sig, 'f) rec_world" where
  "TableRec_input_setter fader_setInput x w = TableRec_setInput fader_setInput x None w"

section \<open>Example objects\<close>

text \<open>Two sound files: three channels of two frames, and two channels of three frames.\<close>

definition fs0 :: "string \<Rightarrow> sndfile option" where
  "fs0 path =
     (if path = ''a.wav''
      then Some \<lparr>sf_frames = 2, sf_sr = 44100, sf_chnls = 3,
                 sf_chan = (\<lambda>c. if c = 0 then [1, 2] else if c = 1 then [3, 4] else [5, 6])\<rparr>
      else if path = ''b.wav''
      then Some \<lparr>sf_frames = 3, sf_sr = 48000, sf_chnls = 2,
                 sf_chan = (\<lambda>c. if c = 0 then [7, 8, 9] else [10, 11, 12])\<rparr>
      else None)"

text \<open>Two breakpoints, the last one before the end of a table of size 4.\<close>

definition pts0 :: "point list" where
  "pts0 = [(0, 0), (2, 1)]"

text \<open>\<^verbatim>\<open>HarmTable(size=4)\<close>, with the default weights.\<close>

definition harm0 :: "HarmTable_base HarmTable" where
  "harm0 = \<lparr>ht_list = [1], ht_size = 4,
            ht_base_objs = [\<lparr>hb_amplist = [1], hb_size = 4, hb_data = [0, 1, 0, - 1]\<rparr>]\<rparr>"

section \<open>Theorems\<close>

subsection \<open>HarmTable\<close>

lemma peak_nonneg: "0 \<le> peak vs"
  by (induction vs) simp_all

lemma peak_divide: "0 < m \<Longrightarrow> peak (map (\<lambda>v. v / m) vs) = peak vs / m"
proof (induction vs)
  case Nil
  show ?case by simp
next
  case (Cons v vs)
  have "max (\<bar>v\<bar> / m) (peak vs / m) = max \<bar>v\<bar> (peak vs) / m"
    using Cons.prems by (simp add: max_def divide_le_cancel)
  then show ?case using Cons by simp
qed

lemma collect_fdiv: "m \<noteq> 0 \<Longrightarrow> collect (map (\<lambda>v. fdiv v m) vs) = Inr (map (\<lambda>v. v / m) vs)"
  by (induction vs) (simp_all add: fdiv_def)

lemma normalize_total:
  "normalize buf = Inr (if peak buf = 0 then buf else map (\<lambda>v. v / peak buf) buf)"
  by (simp add: normalize_def Let_def collect_fdiv)

lemma peak_after_division:
  assumes "peak buf \<noteq> 0"
  shows "peak (map (\<lambda>v. v / peak buf) buf) = 1"
proof -
  have "0 < peak buf" using assms peak_nonneg [of buf] by simp
  then show ?thesis by (simp add: peak_divide)
qed

lemma harm_value_zero:
  assumes "\<forall>w\<in>set weights. w = 0"
  shows "harm_value weights n i = 0"
proof -
  have "\<And>k. k < length weights \<Longrightarrow> weights ! k = 0"
    using assms by simp
  then have eq: "map (\<lambda>k. weights ! k * sin (2 * pi * real (k + 1) * real_of_int i / real_of_int n))
               [0..<length weights] = map (\<lambda>k. 0) [0..<length weights]"
    by (intro map_cong) simp_all
  show ?thesis
    unfolding harm_value_def eq by simp
qed

lemma length_py_range: "length (py_range n) = nat n"
  by (simp add: py_range_def)

lemma harm_raw_zero:
  assumes "\<forall>w\<in>set weights. w = 0"
  shows "harm_raw weights n = replicate (nat n) 0"
proof -
  have "harm_value weights n = (\<lambda>i. 0)"
    using harm_value_zero [OF assms] by (intro ext)
  then show ?thesis
    by (simp add: harm_raw_def map_replicate_const length_py_range)
qed

lemma peak_replicate_zero: "peak (replicate k 0) = 0"
  by (induction k) simp_all

lemma sin_3pi_2: "sin (3 * pi / 2) = - 1"
proof -
  have "3 * pi / 2 = 3 / 2 * pi" by simp
  then show ?thesis by (simp only: sin_3over2_pi)
qed

lemma py_range_4: "py_range 4 = [0, 1, 2, 3]"
  by (simp add: py_range_def upt_rec)

lemma harm_raw_1_4: "harm_raw [1] 4 = [0, 1, 0, - 1]"
  by (simp add: harm_raw_def harm_value_def py_range_4 sin_3pi_2)

lemma HarmTable_generate_1_4: "HarmTable_generate [1] 4 = Inr [0, 1, 0, - 1]"
  by (simp add: HarmTable_generate_def normalize_total harm_raw_1_4)

lemma harm0_init: "HarmTable_init HarmTable_base_new (Some [1]) (Some 4) = Inr harm0"
  by (simp add: HarmTable_init_def HarmTable_base_new_def HarmTable_generate_1_4 harm0_def Let_def)

text \<open>
  C1. For every list of weights and every size the buffer is generated without error,
  so no division by zero occurs, and it is peak-normalized: when the maximum of the
  absolute values of the summed samples is not 0, every sample is that sample divided by
  the maximum, and the peak of the buffer is exactly 1; when every weight is 0, or there
  is none, the buffer is all zeros. This is the buffer of the base object after
  \<^verbatim>\<open>HarmTable(list, size)\<close>, for a positive size, and after \<^verbatim>\<open>replace(list)\<close>.
\<close>

theorem HarmTable_peak_normalized:
  "\<exists>d. HarmTable_generate ws n = Inr d
      \<and> length d = nat n
      \<and> (peak (harm_raw ws n) \<noteq> 0 \<longrightarrow>
           d = map (\<lambda>v. v / peak (harm_raw ws n)) (harm_raw ws n) \<and> peak d = 1)
      \<and> ((\<forall>w\<in>set ws. w = 0) \<longrightarrow> d = replicate (nat n) 0)
      \<and> (0 < n \<longrightarrow>
           HarmTable_init HarmTable_base_new (Some ws) (Some n)
             = Inr \<lparr>ht_list = ws, ht_size = n,
                    ht_base_objs = [\<lparr>hb_amplist = ws, hb_size = n, hb_data = d\<rparr>]\<rparr>)
      \<and> HarmTable_replace HarmTable_base_replace ws
           \<lparr>ht_list = l0, ht_size = n0,
            ht_base_objs = [\<lparr>hb_amplist = a0, hb_size = n, hb_data = d0\<rparr>]\<rparr>
          = (None, \<lparr>ht_list = ws, ht_size = n0,
                    ht_base_objs = [\<lparr>hb_amplist = ws, hb_size = n, hb_data = d\<rparr>]\<rparr>)"
proof -
  let ?raw = "harm_raw ws n"
  let ?d = "if peak ?raw = 0 then ?raw else map (\<lambda>v. v / peak ?raw) ?raw"
  have gen: "HarmTable_generate ws n = Inr ?d"
    by (simp add: HarmTable_generate_def normalize_total)
  have len: "length ?d = nat n"
    by (simp add: harm_raw_def length_py_range)
  have norm: "peak ?raw \<noteq> 0 \<longrightarrow> ?d = map (\<lambda>v. v / peak ?raw) ?raw \<and> peak ?d = 1"
    using peak_after_division [of ?raw] by simp
  have zero: "(\<forall>w\<in>set ws. w = 0) \<longrightarrow> ?d = replicate (nat n) 0"
    by (auto simp: harm_raw_zero peak_replicate_zero)
  have init: "0 < n \<longrightarrow> HarmTable_init HarmTable_base_new (Some ws) (Some n)
             = Inr \<lparr>ht_list = ws, ht_size = n,
                    ht_base_objs = [\<lparr>hb_amplist = ws, hb_size = n, hb_data = ?d\<rparr>]\<rparr>"
    by (simp add: HarmTable_init_def HarmTable_base_new_def gen)
  have repl: "HarmTable_replace HarmTable_base_replace ws
           \<lparr>ht_list = l0, ht_size = n0,
            ht_base_objs = [\<lparr>hb_amplist = a0, hb_size = n, hb_data = d0\<rparr>]\<rparr>
          = (None, \<lparr>ht_list = ws, ht_size = n0,
                    ht_base_objs = [\<lparr>hb_amplist = ws, hb_size = n, hb_data = ?d\<rparr>]\<rparr>)"
    by (simp add: HarmTable_replace_def HarmTable_base_replace_def gen)
  show ?thesis
    using gen len norm zero init repl by blast
qed

theorem HarmTable_peak_normalized_witness:
  "peak (harm_raw [1] 4) \<noteq> 0
   \<and> (\<exists>d. HarmTable_generate [1] 4 = Inr d \<and> peak d = 1 \<and> d = [0, 1, 0, -1]
        \<and> HarmTable_init HarmTable_base_new (Some [1]) (Some 4)
             = Inr \<lparr>ht_list = [1], ht_size = 4,
                    ht_base_objs = [\<lparr>hb_amplist = [1], hb_size = 4, hb_data = d\<rparr>]\<rparr>)
   \<and> (\<exists>d. HarmTable_generate [0, 0] 4 = Inr d \<and> d = [0, 0, 0, 0])"
proof -
  have raw: "harm_raw [1] 4 = [0, 1, 0, - 1]"
    by (rule harm_raw_1_4)
  have nz: "peak (harm_raw [1] 4) \<noteq> 0"
    by (simp add: raw)
  have z: "\<forall>w\<in>set [0, 0 :: real]. w = 0"
    by simp
  have pos: "(0::int) < 4"
    by simp
  show ?thesis
    using HarmTable_peak_normalized [of "[1]" 4] HarmTable_peak_normalized [of "[0, 0]" 4]
      nz z pos
    by (auto simp: raw numeral_eq_Suc)
qed

subsection \<open>LinTable\<close>

lemma nth_py_range: "0 \<le> j \<Longrightarrow> j < n \<Longrightarrow> py_range n ! nat j = j"
  by (simp add: py_range_def)

lemma lin_value_tail: "points \<noteq> [] \<Longrightarrow> fst (last points) < j \<Longrightarrow> lin_value points j = 0"
  by (cases points) (auto simp: lin_value_def)

lemma LinTable_generate_nth:
  "0 \<le> j \<Longrightarrow> j < n \<Longrightarrow> LinTable_generate points n ! nat j = lin_value points j"
  by (simp add: LinTable_generate_def nth_py_range length_py_range)

lemma valid_pts0_4: "valid_points pts0 4"
  by (simp add: valid_points_def pts0_def)

lemma generate_pts0_4: "LinTable_generate pts0 4 = [0, 1 / 2, 1, 0]"
  by (simp add: LinTable_generate_def py_range_4 lin_value_def pts0_def)

text \<open>
  C2. For valid points whose last location \<open>L\<close> is below \<open>size - 1\<close>, the
  construction and \<^verbatim>\<open>replace\<close> succeed, and every sample of the buffer at an index
  \<open>j\<close> with \<open>L < j \<le> size - 1\<close> is 0.
\<close>

theorem LinTable_tail_zero:
  assumes "valid_points points n" and "points \<noteq> []" and "fst (last points) < n - 1"
  shows "LinTable_init LinTable_base_new (Some points) (Some n)
           = Inr \<lparr>lt_size = n, lt_list = None,
                  lt_base_objs = [\<lparr>lb_pointslist = points, lb_size = n,
                                   lb_data = LinTable_generate points n\<rparr>]\<rparr>
         \<and> LinTable_replace LinTable_base_replace points
             \<lparr>lt_size = n0, lt_list = l0,
              lt_base_objs = [\<lparr>lb_pointslist = p0, lb_size = n, lb_data = d0\<rparr>]\<rparr>
           = (None, \<lparr>lt_size = n0, lt_list = Some points,
                     lt_base_objs = [\<lparr>lb_pointslist = points, lb_size = n,
                                      lb_data = LinTable_generate points n\<rparr>]\<rparr>)
         \<and> length (LinTable_generate points n) = nat n
         \<and> (\<forall>j. fst (last points) < j \<and> j \<le> n - 1 \<longrightarrow>
                LinTable_generate points n ! nat j = 0)"
proof -
  have "0 \<le> fst (last points)"
    using assms(1,2) by (simp add: valid_points_def list_all_iff)
  then have pos: "0 < n" using assms(3) by simp
  have tail: "LinTable_generate points n ! nat j = 0"
    if "fst (last points) < j" and "j \<le> n - 1" for j
  proof -
    have "0 \<le> j" using that(1) \<open>0 \<le> fst (last points)\<close> by simp
    then show ?thesis
      using that assms(2) by (simp add: LinTable_generate_nth lin_value_tail)
  qed
  show ?thesis
    using assms(1) pos tail
    by (simp add: LinTable_init_def LinTable_base_new_def LinTable_replace_def
        LinTable_base_replace_def LinTable_generate_def length_py_range)
qed

theorem LinTable_tail_zero_witness:
  "LinTable_init LinTable_base_new (Some pts0) (Some 4)
     = Inr \<lparr>lt_size = 4, lt_list = None,
            lt_base_objs = [\<lparr>lb_pointslist = pts0, lb_size = 4, lb_data = [0, 1 / 2, 1, 0]\<rparr>]\<rparr>
   \<and> fst (last pts0) = 2
   \<and> LinTable_generate pts0 4 ! nat 3 = 0"
proof -
  have last: "fst (last pts0) < 4 - 1" and ne: "pts0 \<noteq> []"
    by (simp_all add: pts0_def)
  show ?thesis
    using LinTable_tail_zero [OF valid_pts0_4 ne last]
    by (simp add: generate_pts0_4) (simp add: pts0_def)
qed

subsection \<open>setSize with a size that is not positive\<close>

text \<open>
  C5, as the code has it. For \<open>n \<le> 0\<close> and a table with a base object,
  \<^verbatim>\<open>setSize(n)\<close> raises ConfigurationError, which comes from the first base object,
  and the base objects, with their buffers and sizes, are unchanged; the attribute
  \<^verbatim>\<open>_size\<close> of the table, assigned before the base objects are called, is \<open>n\<close>.
\<close>

theorem setSize_nonpositive_raises:
  assumes "n \<le> 0"
  shows "(ht_base_objs ht \<noteq> [] \<longrightarrow>
            HarmTable_setSize HarmTable_base_setSize n ht
              = (Some ConfigurationError, ht\<lparr>ht_size := n\<rparr>))
       \<and> (nt_base_objs nt \<noteq> [] \<longrightarrow>
            HannTable_setSize HannTable_base_setSize n nt
              = (Some ConfigurationError, nt\<lparr>nt_size := n\<rparr>))
       \<and> (lt_base_objs lt \<noteq> [] \<longrightarrow>
            LinTable_setSize LinTable_base_setSize n lt
              = (Some ConfigurationError, lt\<lparr>lt_size := n\<rparr>))"
proof -
  have h: "HarmTable_base_setSize n obj = (Some ConfigurationError, obj)" for obj
    using assms by (simp add: HarmTable_base_setSize_def)
  have w: "HannTable_base_setSize n obj = (Some ConfigurationError, obj)" for obj
    using assms by (simp add: HannTable_base_setSize_def)
  have l: "LinTable_base_setSize n obj = (Some ConfigurationError, obj)" for obj
    using assms by (simp add: LinTable_base_setSize_def)
  show ?thesis
    by (cases "ht_base_objs ht"; cases "nt_base_objs nt"; cases "lt_base_objs lt")
       (simp_all add: HarmTable_setSize_def HannTable_setSize_def LinTable_setSize_def h w l)
qed

theorem setSize_nonpositive_raises_witness:
  "HarmTable_setSize HarmTable_base_setSize (- 1) harm0
     = (Some ConfigurationError, harm0\<lparr>ht_size := - 1\<rparr>)
   \<and> ht_base_objs (snd (HarmTable_setSize HarmTable_base_setSize (- 1) harm0))
     = ht_base_objs harm0
   \<and> LinTable_setSize LinTable_base_setSize (- 1)
       \<lparr>lt_size = 4, lt_list = None,
        lt_base_objs = [\<lparr>lb_pointslist = pts0, lb_size = 4, lb_data = [0, 1 / 2, 1, 0]\<rparr>]\<rparr>
     = (Some ConfigurationError,
        \<lparr>lt_size = - 1, lt_list = None,
         lt_base_objs = [\<lparr>lb_pointslist = pts0, lb_size = 4, lb_data = [0, 1 / 2, 1, 0]\<rparr>]\<rparr>)
   \<and> HannTable_setSize HannTable_base_setSize (- 1)
       \<lparr>nt_size = 1, nt_base_objs = [\<lparr>nb_size = 1, nb_data = [1]\<rparr>]\<rparr>
     = (Some ConfigurationError,
        \<lparr>nt_size = - 1, nt_base_objs = [\<lparr>nb_size = 1, nb_data = [1]\<rparr>]\<rparr>)"
proof -
  have neg: "(- 1 :: int) \<le> 0" by simp
  show ?thesis
    using setSize_nonpositive_raises [OF neg, of harm0
        "\<lparr>nt_size = 1, nt_base_objs = [\<lparr>nb_size = 1, nb_data = [1]\<rparr>]\<rparr>"
        "\<lparr>lt_size = 4, lt_list = None,
          lt_base_objs = [\<lparr>lb_pointslist = pts0, lb_size = 4, lb_data = [0, 1 / 2, 1, 0]\<rparr>]\<rparr>"]
    by (simp add: harm0_def)
qed

text \<open>
  C5, as the spec has it, fails: after \<^verbatim>\<open>HarmTable(size=4)\<close>, \<^verbatim>\<open>setSize(0)\<close> raises
  ConfigurationError and the size of the table is no longer 4.
\<close>

theorem setSize_nonpositive_counterexample:
  "HarmTable_init HarmTable_base_new (Some [1]) (Some 4) = Inr harm0
   \<and> fst (HarmTable_setSize HarmTable_base_setSize 0 harm0) = Some ConfigurationError
   \<and> ht_size harm0 = 4
   \<and> ht_size (snd (HarmTable_setSize HarmTable_base_setSize 0 harm0)) = 0
   \<and> snd (HarmTable_setSize HarmTable_base_setSize 0 harm0) \<noteq> harm0"
  by (simp add: harm0_init)
     (simp add: harm0_def HarmTable_setSize_def HarmTable_base_setSize_def)

subsection \<open>SndTable\<close>

lemma for_each_enum_total:
  assumes "\<And>i obj. fst (m i obj) = None"
  shows "fst (for_each_enum m k objs) = None
         \<and> length (snd (for_each_enum m k objs)) = length objs
         \<and> (\<forall>j<length objs. snd (for_each_enum m k objs) ! j = snd (m (k + int j) (objs ! j)))"
proof (induction objs arbitrary: k)
  case Nil
  show ?case by simp
next
  case (Cons obj objs)
  obtain obj' where m: "m k obj = (None, obj')"
    using assms [of k obj] by (cases "m k obj") auto
  obtain r objs' where rest: "for_each_enum m (k + 1) objs = (r, objs')"
    by (cases "for_each_enum m (k + 1) objs") auto
  have r: "r = None" and len: "length objs' = length objs"
    and nth: "\<And>j. j < length objs \<Longrightarrow> objs' ! j = snd (m (k + 1 + int j) (objs ! j))"
    using Cons.IH [of "k + 1"] rest by auto
  have step: "for_each_enum m k (obj # objs) = (None, obj' # objs')"
    using m rest r by simp
  have "snd (for_each_enum m k (obj # objs)) ! j = snd (m (k + int j) ((obj # objs) ! j))"
    if "j < length (obj # objs)" for j
  proof (cases j)
    case 0
    then show ?thesis using step m by simp
  next
    case (Suc j')
    then have "j' < length objs" using that by simp
    then show ?thesis using step Suc nth [of j'] by (simp add: algebra_simps)
  qed
  then show ?case using step len by simp
qed

lemma collect_all_Inr: "collect (map (\<lambda>x. Inr (g x)) xs) = Inr (map g xs)"
  by (induction xs) simp_all

lemma py_range_pos: "0 < n \<Longrightarrow> py_range n = 0 # map int [1..<nat n]"
  by (simp add: py_range_def upt_conv_Cons del: upt_Suc)

text \<open>
  C3. A SndTable built from a decodable file with at least one frame (and, when all
  channels are read, at least one channel) is built without error, and \<^verbatim>\<open>getRate()\<close>
  returns the file's sample rate divided by the table size in frames, so that
  \<^verbatim>\<open>getRate()\<close> times \<^verbatim>\<open>getSize()\<close> is the sample rate.
\<close>

theorem SndTable_getRate_roundtrip:
  assumes "fs path = Some f" and "0 < sf_frames f" and "chnl = None \<longrightarrow> 0 < sf_chnls f"
  shows "\<exists>t rate. SndTable_init (sndinfo fs) (SndTable_base_new fs) path chnl = Inr t
           \<and> SndTable_getRate SndTable_base_getRate t = Inr rate
           \<and> rate = sf_sr f / real_of_int (sf_frames f)
           \<and> SndTable_getSize SndTable_base_getSize t = Inr (sf_frames f)
           \<and> rate * real_of_int (sf_frames f) = sf_sr f"
proof (cases chnl)
  case None
  then have pos: "0 < sf_chnls f" using assms(3) by simp
  have new: "(\<lambda>i. SndTable_base_new fs path i) = (\<lambda>i. Inr (SndTable_base_load path i f))"
    using assms(1) by (simp add: SndTable_base_new_def)
  have init: "SndTable_init (sndinfo fs) (SndTable_base_new fs) path chnl
      = Inr \<lparr>st_size = sf_frames f, st_snd_sr = sf_sr f, st_snd_chnls = sf_chnls f,
             st_base_objs = map (\<lambda>i. SndTable_base_load path i f) (py_range (sf_chnls f))\<rparr>"
    using assms(1) None by (simp add: SndTable_init_def sndinfo_def new collect_all_Inr)
  show ?thesis
    using assms(2) unfolding init
    by (simp add: py_range_pos [OF pos] SndTable_getRate_def SndTable_getSize_def
        SndTable_base_getRate_def SndTable_base_getSize_def SndTable_base_load_def)
next
  case (Some c)
  have init: "SndTable_init (sndinfo fs) (SndTable_base_new fs) path chnl
      = Inr \<lparr>st_size = sf_frames f, st_snd_sr = sf_sr f, st_snd_chnls = sf_chnls f,
             st_base_objs = [SndTable_base_load path c f]\<rparr>"
    using assms(1) Some by (simp add: SndTable_init_def sndinfo_def SndTable_base_new_def)
  show ?thesis
    using assms(2) unfolding init
    by (simp add: SndTable_getRate_def SndTable_getSize_def
        SndTable_base_getRate_def SndTable_base_getSize_def SndTable_base_load_def)
qed

theorem SndTable_getRate_roundtrip_witness:
  "\<exists>t rate. SndTable_init (sndinfo fs0) (SndTable_base_new fs0) ''a.wav'' None = Inr t
           \<and> SndTable_getRate SndTable_base_getRate t = Inr rate
           \<and> rate = 22050
           \<and> SndTable_getSize SndTable_base_getSize t = Inr 2
           \<and> rate * 2 = 44100"
  using SndTable_getRate_roundtrip [of fs0 "''a.wav''" "the (fs0 ''a.wav'')" None]
  by (simp add: fs0_def)

text \<open>
  C4. \<^verbatim>\<open>setSound(path)\<close> on a decodable file with \<open>C > 0\<close> channels raises nothing,
  keeps the number of sub-tables, and fills sub-table \<open>i\<close> from channel \<open>i mod C\<close> of
  the new file, for every \<open>i\<close> below the number of sub-tables.
\<close>

theorem SndTable_setSound_wraps_channels:
  assumes "fs path = Some f" and "0 < sf_chnls f"
  shows "fst (SndTable_setSound (sndinfo fs) (SndTable_base_setSound fs) path t) = None
    \<and> length (st_base_objs (snd (SndTable_setSound (sndinfo fs) (SndTable_base_setSound fs) path t)))
        = length (st_base_objs t)
    \<and> (\<forall>i<length (st_base_objs t).
          st_base_objs (snd (SndTable_setSound (sndinfo fs) (SndTable_base_setSound fs) path t)) ! i
            = SndTable_base_load path (int i mod sf_chnls f) f
          \<and> sb_data (st_base_objs
                (snd (SndTable_setSound (sndinfo fs) (SndTable_base_setSound fs) path t)) ! i)
            = sf_chan f (int i mod sf_chnls f))"
proof -
  let ?m = "\<lambda>i obj. if sf_chnls f = 0 then (Some ZeroDivisionError, obj)
                     else SndTable_base_setSound fs path (i mod sf_chnls f) obj"
  have total: "\<And>i obj. fst (?m i obj) = None"
    using assms by (simp add: SndTable_base_setSound_def)
  have m: "\<And>i obj. snd (?m i obj) = SndTable_base_load path (i mod sf_chnls f) f"
    using assms by (simp add: SndTable_base_setSound_def)
  have unfold: "SndTable_setSound (sndinfo fs) (SndTable_base_setSound fs) path t
      = (fst (for_each_enum ?m 0 (st_base_objs t)),
         t\<lparr>st_base_objs := snd (for_each_enum ?m 0 (st_base_objs t))\<rparr>)"
    using assms by (simp add: SndTable_setSound_def sndinfo_def split: prod.split)
  show ?thesis
    unfolding unfold using for_each_enum_total [of ?m 0 "st_base_objs t", OF total] m
    by (simp add: SndTable_base_load_def)
qed

theorem SndTable_setSound_wraps_channels_witness:
  "map sb_data (st_base_objs (snd (SndTable_setSound (sndinfo fs0) (SndTable_base_setSound fs0)
      ''b.wav''
      \<lparr>st_size = 2, st_snd_sr = 44100, st_snd_chnls = 3,
       st_base_objs = [SndTable_base_load ''a.wav'' 0 (the (fs0 ''a.wav'')),
                       SndTable_base_load ''a.wav'' 1 (the (fs0 ''a.wav'')),
                       SndTable_base_load ''a.wav'' 2 (the (fs0 ''a.wav''))]\<rparr>)))
   = [[7, 8, 9], [10, 11, 12], [7, 8, 9]]"
  using SndTable_setSound_wraps_channels [of fs0 "''b.wav''" "the (fs0 ''b.wav'')"
      "\<lparr>st_size = 2, st_snd_sr = 44100, st_snd_chnls = 3,
       st_base_objs = [SndTable_base_load ''a.wav'' 0 (the (fs0 ''a.wav'')),
                       SndTable_base_load ''a.wav'' 1 (the (fs0 ''a.wav'')),
                       SndTable_base_load ''a.wav'' 2 (the (fs0 ''a.wav''))]\<rparr>"]
  by (simp add: fs0_def SndTable_setSound_def sndinfo_def SndTable_base_setSound_def
      SndTable_base_load_def)

text \<open>
  C9. \<^verbatim>\<open>setSound(path)\<close> leaves \<^verbatim>\<open>_size\<close>, \<^verbatim>\<open>_snd_sr\<close> and \<^verbatim>\<open>_snd_chnls\<close> as they
  were, whatever \<^verbatim>\<open>sndinfo\<close> and the base objects do, exception or not; of the triple
  that \<^verbatim>\<open>sndinfo\<close> returns only the channel count has an effect: two decoders that
  differ in frame count and sample rate give the same result.
\<close>

theorem SndTable_setSound_keeps_metadata:
  "st_size (snd (SndTable_setSound si bs path t)) = st_size t
   \<and> st_snd_sr (snd (SndTable_setSound si bs path t)) = st_snd_sr t
   \<and> st_snd_chnls (snd (SndTable_setSound si bs path t)) = st_snd_chnls t
   \<and> SndTable_setSound (\<lambda>p. Inr (size1, sr1, c)) bs path t
       = SndTable_setSound (\<lambda>p. Inr (size2, sr2, c)) bs path t"
  by (simp add: SndTable_setSound_def split: sum.split prod.split)

subsection \<open>TableRec\<close>

text \<open>
  C7. Whatever the state of the recorder, \<^verbatim>\<open>setInput(x, fadetime)\<close> changes the
  attribute \<^verbatim>\<open>_input\<close> and the input fader, through the fader's own \<^verbatim>\<open>setInput\<close>, and
  nothing else: the base objects, with their state machine and write cursor, the
  reference to the target table and the buffers of every table are as before the call.
\<close>

theorem TableRec_setInput_frame:
  "tables (snd (TableRec_setInput fset x ft w)) = tables w
   \<and> tr_base_objs (recorder (snd (TableRec_setInput fset x ft w))) = tr_base_objs (recorder w)
   \<and> map rb_state (tr_base_objs (recorder (snd (TableRec_setInput fset x ft w))))
       = map rb_state (tr_base_objs (recorder w))
   \<and> map rb_cursor (tr_base_objs (recorder (snd (TableRec_setInput fset x ft w))))
       = map rb_cursor (tr_base_objs (recorder w))
   \<and> tr_table (recorder (snd (TableRec_setInput fset x ft w))) = tr_table (recorder w)
   \<and> tr_input (recorder (snd (TableRec_setInput fset x ft w))) = x
   \<and> tr_in_fader (recorder (snd (TableRec_setInput fset x ft w)))
       = snd (fset x (case ft of None \<Rightarrow> 5 / 100 | Some t \<Rightarrow> t) (tr_in_fader (recorder w)))"
  by (simp add: TableRec_setInput_def Let_def split: prod.split)

text \<open>
  C8. \<^verbatim>\<open>out()\<close>, \<^verbatim>\<open>setMul(x)\<close> and \<^verbatim>\<open>setAdd(x)\<close> do nothing: each returns \<^verbatim>\<open>None\<close>,
  no signal, and leaves the recorder and every table as they were, for every argument.
\<close>

theorem TableRec_sink_noop:
  "TableRec_out chnl w = (None, w)
   \<and> TableRec_setMul x w = (None, w)
   \<and> TableRec_setAdd y w = (None, w)"
  by (simp add: TableRec_out_def TableRec_setMul_def TableRec_setAdd_def)

text \<open>
  C10. The assignment \<^verbatim>\<open>r.input = x\<close> is the call \<^verbatim>\<open>r.setInput(x, 0.05)\<close>: same
  exception, same resulting world, with \<^verbatim>\<open>_input\<close> set to \<open>x\<close> and the fader's
  \<^verbatim>\<open>setInput\<close> called with the fade time 0.05. This holds for every recorder, in
  particular for one just built with any \<open>fadetime\<close>, given or left to its default 0.
\<close>

theorem TableRec_input_setter_is_setInput:
  "TableRec_input_setter fset x w = TableRec_setInput fset x (Some (5 / 100)) w
   \<and> TableRec_input_setter fset x \<lparr>tables = tbs, recorder = TableRec_init mk inp tab ft0\<rparr>
       = TableRec_setInput fset x (Some (5 / 100))
           \<lparr>tables = tbs, recorder = TableRec_init mk inp tab ft0\<rparr>
   \<and> tr_input (recorder (snd (TableRec_input_setter fset x w))) = x
   \<and> tr_in_fader (recorder (snd (TableRec_input_setter fset x w)))
       = snd (fset x (5 / 100) (tr_in_fader (recorder w)))"
  by (simp add: TableRec_input_setter_def TableRec_setInput_def Let_def split: prod.split)

end
